theory Spec2Isabelle
  imports Complex_Main "HOL-Library.Word" "HOL-Library.List_Lexorder" "HOL-Library.Char_ord"
begin

section \<open>The dmc.token contract: billing, ordering, stake pool, bonus, liquidation, price oracle\<close>

text \<open>
  A shallow embedding of \<^verbatim>\<open>contracts/dmc.token/src/dmc.cpp\<close>. Every action is a function
  from the tables it reads to either an abort message (\<open>Inl\<close>) or the tables it leaves
  (\<open>Inr\<close>): a failed \<^verbatim>\<open>check\<close> discards every write of the action, as the host does.

  Conventions.
  \<^item> An account \<^verbatim>\<open>name\<close> is modelled by its string; a table scope \<^verbatim>\<open>owner.value\<close> is the name.
  \<^item> \<^verbatim>\<open>uint64_t\<close> is \<open>64 word\<close>, \<^verbatim>\<open>time_point_sec\<close> is \<open>32 word\<close> (seconds), the
    \<^verbatim>\<open>int64_t\<close> amount of an asset is an \<open>int\<close> with the range checks of the asset
    operators written out.
  \<^item> \<^verbatim>\<open>double\<close> is the type \<open>double\<close> below: a real number, or one of the IEEE special
    values. Arithmetic on finite values is exact: rounding to 53 bits, overflow to
    infinity and the sign of zero are not modelled.
  \<^item> Inline actions (receipts and notifications) and the supply statistics are tables
    outside the modelled state.
\<close>

subsection \<open>Doubles\<close>

datatype double = Fin real | PInf | MInf | NaN

fun dneg :: "double \<Rightarrow> double" where
  "dneg (Fin x) = Fin (- x)"
| "dneg PInf = MInf"
| "dneg MInf = PInf"
| "dneg NaN = NaN"

fun dadd :: "double \<Rightarrow> double \<Rightarrow> double" where
  "dadd (Fin x) (Fin y) = Fin (x + y)"
| "dadd NaN _ = NaN"
| "dadd _ NaN = NaN"
| "dadd PInf MInf = NaN"
| "dadd MInf PInf = NaN"
| "dadd PInf _ = PInf"
| "dadd _ PInf = PInf"
| "dadd MInf _ = MInf"
| "dadd _ MInf = MInf"

definition dsub :: "double \<Rightarrow> double \<Rightarrow> double" where
  "dsub a b = dadd a (dneg b)"

text \<open>An infinity times (or a nonzero value over zero with) the sign of a finite factor.\<close>

definition inf_signed :: "real \<Rightarrow> double" where
  "inf_signed x = (if 0 < x then PInf else if x < 0 then MInf else NaN)"

fun dmul :: "double \<Rightarrow> double \<Rightarrow> double" where
  "dmul (Fin x) (Fin y) = Fin (x * y)"
| "dmul NaN _ = NaN"
| "dmul _ NaN = NaN"
| "dmul PInf (Fin y) = inf_signed y"
| "dmul (Fin x) PInf = inf_signed x"
| "dmul MInf (Fin y) = inf_signed (- y)"
| "dmul (Fin x) MInf = inf_signed (- x)"
| "dmul PInf PInf = PInf"
| "dmul MInf MInf = PInf"
| "dmul PInf MInf = MInf"
| "dmul MInf PInf = MInf"

fun ddiv :: "double \<Rightarrow> double \<Rightarrow> double" where
  "ddiv (Fin x) (Fin y) = (if y = 0 then inf_signed x else Fin (x / y))"
| "ddiv NaN _ = NaN"
| "ddiv _ NaN = NaN"
| "ddiv (Fin x) PInf = Fin 0"
| "ddiv (Fin x) MInf = Fin 0"
| "ddiv PInf (Fin y) = (if 0 \<le> y then PInf else MInf)"
| "ddiv MInf (Fin y) = (if 0 \<le> y then MInf else PInf)"
| "ddiv PInf PInf = NaN"
| "ddiv PInf MInf = NaN"
| "ddiv MInf PInf = NaN"
| "ddiv MInf MInf = NaN"

text \<open>Comparisons: every comparison with NaN is false.\<close>

fun dlt :: "double \<Rightarrow> double \<Rightarrow> bool" where
  "dlt (Fin x) (Fin y) = (x < y)"
| "dlt NaN _ = False"
| "dlt _ NaN = False"
| "dlt MInf MInf = False"
| "dlt MInf _ = True"
| "dlt PInf _ = False"
| "dlt (Fin x) PInf = True"
| "dlt (Fin x) MInf = False"

fun deq :: "double \<Rightarrow> double \<Rightarrow> bool" where
  "deq (Fin x) (Fin y) = (x = y)"
| "deq PInf PInf = True"
| "deq MInf MInf = True"
| "deq _ _ = False"

definition dle :: "double \<Rightarrow> double \<Rightarrow> bool" where
  "dle a b = (dlt a b \<or> deq a b)"

definition dgt :: "double \<Rightarrow> double \<Rightarrow> bool" where
  "dgt a b = dlt b a"

definition dge :: "double \<Rightarrow> double \<Rightarrow> bool" where
  "dge a b = dle b a"

text \<open>\<^verbatim>\<open>std::floor\<close>, \<^verbatim>\<open>std::ceil\<close> and \<^verbatim>\<open>std::round\<close> (halves away from zero).\<close>

fun dfloor :: "double \<Rightarrow> double" where
  "dfloor (Fin x) = Fin (of_int \<lfloor>x\<rfloor>)"
| "dfloor d = d"



definition of_int64 :: "int \<Rightarrow> double" where
  "of_int64 i = Fin (of_int i)"

definition of_uint64 :: "64 word \<Rightarrow> double" where
  "of_uint64 w = Fin (of_nat (unat w))"

text \<open>
  A double converted to \<^verbatim>\<open>int64_t\<close> or \<^verbatim>\<open>uint64_t\<close> is truncated towards zero. A value
  with no such integer (NaN, an infinity, out of range) traps in the host's virtual
  machine: \<open>None\<close>.
\<close>

definition trunc :: "real \<Rightarrow> int" where
  "trunc x = (if 0 \<le> x then \<lfloor>x\<rfloor> else \<lceil>x\<rceil>)"

fun to_int64 :: "double \<Rightarrow> int option" where
  "to_int64 (Fin x) =
     (if - (2 ^ 63) \<le> trunc x \<and> trunc x < 2 ^ 63 then Some (trunc x) else None)"
| "to_int64 d = None"


subsection \<open>Names, symbols, assets\<close>

type_synonym name = string

text \<open>
  The three extended symbols of the contract are constants of the header; they are
  distinct tokens, and every other symbol is \<open>other_sym\<close>.
\<close>

datatype extended_symbol = pst_sym | dmc_sym | rsi_sym | other_sym string

record extended_asset =
  amount :: int
  ext_sym :: extended_symbol

type_synonym 'a result = "string + 'a"

definition max_amount :: int where
  "max_amount = 2 ^ 62 - 1"

text \<open>
  The constructor and the operators of \<^verbatim>\<open>eosio::extended_asset\<close>: the constructor checks
  the magnitude of the amount, the arithmetic and the comparisons check that both sides
  are the same token, and the arithmetic checks the range of its result.
\<close>

definition mk_asset :: "int \<Rightarrow> extended_symbol \<Rightarrow> extended_asset result" where
  "mk_asset v s =
     (if - max_amount \<le> v \<and> v \<le> max_amount then Inr \<lparr>amount = v, ext_sym = s\<rparr>
      else Inl ''magnitude of asset amount must be less than 2^62'')"

definition asset_add :: "extended_asset \<Rightarrow> extended_asset \<Rightarrow> extended_asset result" where
  "asset_add a b =
     (if ext_sym a \<noteq> ext_sym b then Inl ''type mismatch''
      else if amount a + amount b < - max_amount then Inl ''addition underflow''
      else if max_amount < amount a + amount b then Inl ''addition overflow''
      else Inr (a\<lparr>amount := amount a + amount b\<rparr>))"

definition asset_sub :: "extended_asset \<Rightarrow> extended_asset \<Rightarrow> extended_asset result" where
  "asset_sub a b =
     (if ext_sym a \<noteq> ext_sym b then Inl ''type mismatch''
      else if amount a - amount b < - max_amount then Inl ''subtraction underflow''
      else if max_amount < amount a - amount b then Inl ''subtraction overflow''
      else Inr (a\<lparr>amount := amount a - amount b\<rparr>))"


definition asset_ge :: "extended_asset \<Rightarrow> extended_asset \<Rightarrow> bool result" where
  "asset_ge a b =
     (if ext_sym a \<noteq> ext_sym b then Inl ''type mismatch'' else Inr (amount b \<le> amount a))"


text \<open>\<^verbatim>\<open>extended_asset(x, sym)\<close> with a double \<open>x\<close>: the conversion, then the constructor.\<close>

definition asset_of_double :: "double \<Rightarrow> extended_symbol \<Rightarrow> extended_asset result" where
  "asset_of_double x s =
     (case to_int64 x of
        None \<Rightarrow> Inl ''unrepresentable integer''
      | Some v \<Rightarrow> mk_asset v s)"

text \<open>
  Modelled from the spec: \<^verbatim>\<open>get_asset_by_amount<double, wipe>(x, sym)\<close> of the header
  \<^verbatim>\<open>utils.hpp\<close>, which is not among the sources. The spec states its result as
  \<open>ceil(x)\<close>, respectively \<open>floor(x)\<close>, of the symbol \<open>sym\<close>; the rounded value becomes the
  \<^verbatim>\<open>int64_t\<close> amount of an asset.
\<close>

definition get_asset_by_amount ::
  "(double \<Rightarrow> double) \<Rightarrow> double \<Rightarrow> extended_symbol \<Rightarrow> extended_asset result" where
  "get_asset_by_amount wipe x s = asset_of_double (wipe x) s"

text \<open>Sequencing: an abort of the first step is the abort of the whole.\<close>

definition andthen :: "'a result \<Rightarrow> ('a \<Rightarrow> 'b result) \<Rightarrow> 'b result" where
  "andthen m f = (case m of Inl msg \<Rightarrow> Inl msg | Inr x \<Rightarrow> f x)"

subsection \<open>Tables\<close>

record bill_record =
  primary :: nat
  bill_id :: "64 word"
  bill_owner :: name
  matched :: extended_asset
  unmatched :: extended_asset
  bill_price :: "64 word"
  created_at :: "32 word"
  updated_at :: "32 word"
  expire_on :: "32 word"
  deposit_ratio :: "64 word"

record dmc_maker =
  maker_miner :: name
  current_rate :: double
  miner_rate :: double
  total_weight :: double
  total_staked :: extended_asset
  benchmark_stake_rate :: "64 word"
  rate_updated_at :: "32 word"

record maker_pool =
  pool_owner :: name
  weight :: double

record price_history =
  price_primary :: nat
  price_bill_id :: "64 word"
  sample_price :: double
  price_created_at :: "32 word"

record price_avg =
  avg_primary :: nat
  total :: double
  count :: "64 word"
  avg :: double

datatype order_state = OrderStateWaiting

datatype challenge_state = ChallengePrepare

record dmc_order =
  order_id :: "64 word"
  user :: name
  order_miner :: name
  order_bill_id :: "64 word"
  user_pledge :: extended_asset
  miner_lock_pst :: extended_asset
  miner_lock_dmc :: extended_asset
  settlement_pledge :: extended_asset
  lock_pledge :: extended_asset
  order_price :: extended_asset
  state :: order_state
  deliver_start_date :: "32 word"
  latest_settlement_date :: "32 word"
  miner_lock_rsi :: extended_asset
  miner_rsi :: extended_asset
  user_rsi :: extended_asset
  deposit :: extended_asset
  order_deposit_valid :: "32 word"
  cancel_date :: "32 word"

record dmc_challenge =
  challenge_order_id :: "64 word"
  pre_merkle_root :: "256 word"
  pre_data_block_count :: "64 word"
  merkle_submitter :: name
  challenge_times :: "64 word"
  challenge_status :: challenge_state
  user_lock :: extended_asset
  miner_pay :: extended_asset

text \<open>
  The tables of the contract. A table with a scope is a function of the scope. The rows
  of a table are a list in primary-key order; the tables that are only looked up by
  their primary key are maps. The balance ledger holds the free balances and the
  time-locked credits.
\<close>

record tables =
  bill_stats :: "name \<Rightarrow> bill_record list"
  dmc_makers :: "dmc_maker list"
  dmc_maker_pools :: "name \<Rightarrow> maker_pool list"
  pststats :: "name \<Rightarrow> extended_asset option"
  accounts :: "name \<Rightarrow> extended_symbol \<Rightarrow> int option"
  lock_accounts :: "(name \<times> extended_asset \<times> 32 word) list"
  dmc_global :: "name \<Rightarrow> 64 word option"
  avg_table :: "price_avg option"
  price_table :: "price_history list"
  dmc_orders :: "dmc_order list"
  dmc_challenges :: "dmc_challenge list"

text \<open>What the host supplies to an action: the time in seconds, and who signed.\<close>

record ctx =
  now :: "32 word"
  has_auth :: "name \<Rightarrow> bool"

text \<open>
  The constants and helpers of the headers \<^verbatim>\<open>dmc.token.hpp\<close> and \<^verbatim>\<open>utils.hpp\<close>, which are
  not among the sources: every function below takes them as a parameter.
  \<open>get_real_asset\<close> is the spec's \<open>valued\<close>; \<open>get_dmc_by_vrsi\<close> converts a reward into
  collateral at the current price valuation; \<open>get_n\<close> is the member of a maker row that
  the liquidation scan compares the rate with; the two hashes are the leading 64 bits of
  the SHA-256 digests. \<open>past_the_end_price\<close> is the \<^verbatim>\<open>price\<close> read through the end
  iterator of the price table, which the language leaves undetermined.
\<close>

record env =
  self :: name
  system_account :: name
  eos_account :: name
  default_service_interval :: "64 word"
  default_order_service_epoch :: "64 word"
  default_benchmark_stake_rate :: "64 word"
  default_bill_dmc_claims_interval :: "64 word"
  default_penalty_rate :: "64 word"
  default_initial_price :: "64 word"
  price_fluncuation_interval :: "32 word"
  day_sec :: "32 word"
  incentive_rate :: double
  static_weights :: double
  uint64_max :: double
  get_real_asset :: "extended_asset \<Rightarrow> double"
  get_dmc_by_vrsi :: "tables \<Rightarrow> extended_asset \<Rightarrow> extended_asset result"
  get_n :: "dmc_maker \<Rightarrow> 64 word"
  bill_hash :: "name \<Rightarrow> extended_asset \<Rightarrow> 64 word \<Rightarrow> 32 word \<Rightarrow> string \<Rightarrow> 64 word"
  order_hash ::
    "name \<Rightarrow> name \<Rightarrow> 64 word \<Rightarrow> extended_asset \<Rightarrow> extended_asset \<Rightarrow> string \<Rightarrow> 32 word \<Rightarrow> 64 word"
  past_the_end_price :: double

subsection \<open>Rows by key\<close>

definition available_primary_key :: "nat list \<Rightarrow> nat" where
  "available_primary_key keys = (if keys = [] then 0 else Suc (last keys))"

text \<open>The index \<^verbatim>\<open>byid\<close>: the first row with the bill id, in primary-key order.\<close>

definition find_byid :: "bill_record list \<Rightarrow> 64 word \<Rightarrow> bill_record option" where
  "find_byid rows i = find (\<lambda>b. bill_id b = i) rows"

definition put_bill :: "bill_record list \<Rightarrow> bill_record \<Rightarrow> bill_record list" where
  "put_bill rows r = map (\<lambda>b. if primary b = primary r then r else b) rows"

definition erase_bill :: "bill_record list \<Rightarrow> bill_record \<Rightarrow> bill_record list" where
  "erase_bill rows r = filter (\<lambda>b. primary b \<noteq> primary r) rows"

text \<open>A write of a bill row (\<^verbatim>\<open>modify\<close>) in the table of a scope.\<close>

definition store_bill :: "tables \<Rightarrow> name \<Rightarrow> bill_record \<Rightarrow> tables" where
  "store_bill st scope r =
     st\<lparr>bill_stats := (bill_stats st)(scope := put_bill (bill_stats st scope) r)\<rparr>"

definition find_maker :: "dmc_maker list \<Rightarrow> name \<Rightarrow> dmc_maker option" where
  "find_maker rows n = find (\<lambda>m. maker_miner m = n) rows"

definition put_maker :: "dmc_maker list \<Rightarrow> dmc_maker \<Rightarrow> dmc_maker list" where
  "put_maker rows r = map (\<lambda>m. if maker_miner m = maker_miner r then r else m) rows"

definition erase_maker :: "dmc_maker list \<Rightarrow> name \<Rightarrow> dmc_maker list" where
  "erase_maker rows n = filter (\<lambda>m. maker_miner m \<noteq> n) rows"

definition emplace_maker :: "dmc_maker list \<Rightarrow> dmc_maker \<Rightarrow> dmc_maker list" where
  "emplace_maker rows r = insort_key maker_miner r rows"

definition find_pool :: "maker_pool list \<Rightarrow> name \<Rightarrow> maker_pool option" where
  "find_pool rows n = find (\<lambda>p. pool_owner p = n) rows"

definition put_pool :: "maker_pool list \<Rightarrow> maker_pool \<Rightarrow> maker_pool list" where
  "put_pool rows r = map (\<lambda>p. if pool_owner p = pool_owner r then r else p) rows"

definition erase_pool :: "maker_pool list \<Rightarrow> name \<Rightarrow> maker_pool list" where
  "erase_pool rows n = filter (\<lambda>p. pool_owner p \<noteq> n) rows"

definition emplace_pool :: "maker_pool list \<Rightarrow> maker_pool \<Rightarrow> maker_pool list" where
  "emplace_pool rows r = insort_key pool_owner r rows"

subsection \<open>Configuration, balances, minted statistics\<close>

definition get_dmc_config :: "tables \<Rightarrow> name \<Rightarrow> 64 word \<Rightarrow> 64 word" where
  "get_dmc_config st key default_value =
     (case dmc_global st key of Some v \<Rightarrow> v | None \<Rightarrow> default_value)"

definition get_dmc_rate :: "env \<Rightarrow> tables \<Rightarrow> 64 word \<Rightarrow> double" where
  "get_dmc_rate e st rate_value =
     (case avg_table st of
        None \<Rightarrow>
          dmul (ddiv (of_uint64 rate_value) (Fin 100))
            (of_uint64 (get_dmc_config st ''initalprice'' (default_initial_price e)))
      | Some aitr \<Rightarrow> dmul (ddiv (of_uint64 rate_value) (Fin 100)) (avg aitr))"

text \<open>
  Modelled from the spec: the balance ledger (\<^verbatim>\<open>sub_balance\<close>, \<^verbatim>\<open>add_balance\<close>,
  \<^verbatim>\<open>lock_add_balance\<close>), which is not among the sources. A debit fails on insufficient
  funds; a credit adds to the balance, opening it when the account holds none of the
  token; a time-locked credit is kept with its maturity.
\<close>

definition sub_balance :: "tables \<Rightarrow> name \<Rightarrow> extended_asset \<Rightarrow> tables result" where
  "sub_balance st ownr value =
     (case accounts st ownr (ext_sym value) of
        None \<Rightarrow> Inl ''no balance object found''
      | Some b \<Rightarrow>
          if b < amount value then Inl ''overdrawn balance''
          else Inr (st\<lparr>accounts := (accounts st)
                 (ownr := (accounts st ownr)(ext_sym value \<mapsto> b - amount value))\<rparr>))"

definition add_balance :: "tables \<Rightarrow> name \<Rightarrow> extended_asset \<Rightarrow> tables" where
  "add_balance st ownr value =
     st\<lparr>accounts := (accounts st)
       (ownr := (accounts st ownr)(ext_sym value \<mapsto>
          (case accounts st ownr (ext_sym value) of None \<Rightarrow> 0 | Some b \<Rightarrow> b) + amount value))\<rparr>"

definition lock_add_balance :: "tables \<Rightarrow> name \<Rightarrow> extended_asset \<Rightarrow> 32 word \<Rightarrow> tables" where
  "lock_add_balance st ownr value maturity =
     st\<lparr>lock_accounts := lock_accounts st @ [(ownr, value, maturity)]\<rparr>"


definition cal_current_rate :: "env \<Rightarrow> tables \<Rightarrow> extended_asset \<Rightarrow> name \<Rightarrow> double" where
  "cal_current_rate e st dmc_asset ownr =
     (case pststats st ownr of
        None \<Rightarrow> uint64_max e
      | Some a \<Rightarrow>
          if amount a \<noteq> 0 then ddiv (get_real_asset e dmc_asset) (of_int64 (amount a))
          else uint64_max e)"

subsection \<open>Bonus accrual\<close>

text \<open>
  \<^verbatim>\<open>amount *= duration\<close> multiplies an \<^verbatim>\<open>int64_t\<close> by a \<^verbatim>\<open>uint64_t\<close>: the product is taken
  modulo \<open>2^64\<close> and read back as signed. The product of two \<^verbatim>\<open>int64_t\<close> wraps alike.
\<close>

definition mul_int64_uint64 :: "int \<Rightarrow> 64 word \<Rightarrow> int" where
  "mul_int64_uint64 a d = sint (word_of_int a * d :: 64 word)"

definition mul_int64 :: "int \<Rightarrow> int \<Rightarrow> int" where
  "mul_int64 a b = sint (word_of_int a * word_of_int b :: 64 word)"

text \<open>The reward per second and per unit of unmatched capacity, in RSI.\<close>

definition bonus_rate :: "env \<Rightarrow> tables \<Rightarrow> extended_asset result" where
  "bonus_rate e st =
     get_asset_by_amount dfloor
       (ddiv (ddiv (dmul (incentive_rate e)
          (of_uint64 (get_dmc_config st ''bmrate'' (default_benchmark_stake_rate e))))
          (Fin 100)) (of_uint64 (default_bill_dmc_claims_interval e))) rsi_sym"

definition calbonus ::
  "env \<Rightarrow> ctx \<Rightarrow> tables \<Rightarrow> name \<Rightarrow> 64 word \<Rightarrow> name \<Rightarrow> (tables \<times> 64 word) result" where
  "calbonus e c st ownr bid ram_payer =
     (case find_byid (bill_stats st ownr) bid of
        None \<Rightarrow> Inl ''no such record''
      | Some ust \<Rightarrow>
     (case find_maker (dmc_makers st) ownr of
        None \<Rightarrow> Inl ''no such pst maker''
      | Some iter \<Rightarrow>
          let updated_at_t = (ucast (updated_at ust) :: 64 word);
              bill_dmc_claims_interval =
                get_dmc_config st ''billinter'' (default_bill_dmc_claims_interval e);
              max_dmc_claims_interval = ucast (created_at ust) + bill_dmc_claims_interval;
              now_time_t =
                (if max_dmc_claims_interval \<le> ucast (now c) then max_dmc_claims_interval
                 else ucast (now c))
          in
          if updated_at_t \<le> max_dmc_claims_interval then
            if \<not> now_time_t - updated_at_t \<le> now_time_t then Inl ''subtractive overflow''
            else
              andthen (bonus_rate e st) (\<lambda>quantity.
                let reward = mul_int64 (mul_int64_uint64 (amount quantity)
                               (now_time_t - updated_at_t)) (amount (unmatched ust))
                in
                if reward \<noteq> 0 then
                  andthen (get_dmc_by_vrsi e st (quantity\<lparr>amount := reward\<rparr>)) (\<lambda>dmc_quantity.
                    if 0 < amount dmc_quantity then
                      andthen (asset_add (total_staked iter) dmc_quantity) (\<lambda>staked.
                        Inr (st\<lparr>dmc_makers :=
                               put_maker (dmc_makers st) (iter\<lparr>total_staked := staked\<rparr>)\<rparr>,
                             now_time_t))
                    else Inr (st, now_time_t))
                else Inr (st, now_time_t))
          else Inr (st, now_time_t)))"

subsection \<open>Billing ledger\<close>


definition unbill ::
  "env \<Rightarrow> ctx \<Rightarrow> tables \<Rightarrow> name \<Rightarrow> 64 word \<Rightarrow> string \<Rightarrow> tables result" where
  "unbill e c st ownr bid memo =
     (if \<not> has_auth c ownr then Inl ''missing required authority''
      else if \<not> length memo \<le> 256 then Inl ''memo has more than 256 bytes''
      else
        (case find_byid (bill_stats st ownr) bid of
           None \<Rightarrow> Inl ''no such record''
         | Some ust \<Rightarrow>
             andthen (calbonus e c st ownr bid ownr) (\<lambda>(st1, t).
               Inr (add_balance
                     (st1\<lparr>bill_stats := (bill_stats st1)
                        (ownr := erase_bill (bill_stats st1 ownr) ust)\<rparr>)
                     ownr (unmatched ust)))))"

subsection \<open>Price oracle\<close>

text \<open>
  The eviction loop walks the index \<^verbatim>\<open>bytime\<close> from its oldest row. \<^verbatim>\<open>it = iter.erase(it)\<close>
  leaves \<open>it\<close> on the row after the erased one, and the running sum is then decremented by
  \<^verbatim>\<open>it->price\<close>: the price of that next row, or what the end iterator reads when the
  erased row was the last. The result is the rows that stay, and the aggregate.
\<close>

fun evict :: "double \<Rightarrow> 32 word \<Rightarrow> price_history list \<Rightarrow> price_avg \<Rightarrow> price_history list \<times> price_avg" where
  "evict past_end rtime [] a = ([], a)"
| "evict past_end rtime (x # xs) a =
     (if price_created_at x < rtime then
        evict past_end rtime xs
          (a\<lparr>total := dsub (total a)
                 (case xs of [] \<Rightarrow> past_end | y # ys \<Rightarrow> sample_price y),
             count := count a - 1\<rparr>)
      else (x # xs, a))"

definition trace_price_history :: "env \<Rightarrow> ctx \<Rightarrow> tables \<Rightarrow> double \<Rightarrow> 64 word \<Rightarrow> tables" where
  "trace_price_history e c st prc bid =
     (let rtime = now c - price_fluncuation_interval e;
          aitr = (case avg_table st of
                    None \<Rightarrow> \<lparr>avg_primary = 0, total = Fin 0, count = 0, avg = Fin 0\<rparr>
                  | Some a \<Rightarrow> a);
          (kept, a1) = evict (past_the_end_price e) rtime
                         (sort_key price_created_at (price_table st)) aitr;
          ptb = sort_key price_primary kept;
          a2 = a1\<lparr>total := dadd (total a1) prc, count := count a1 + 1\<rparr>
      in st\<lparr>price_table := ptb @
               [\<lparr>price_primary = available_primary_key (map price_primary ptb),
                 price_bill_id = bid, sample_price = prc, price_created_at = now c\<rparr>],
             avg_table := Some (a2\<lparr>avg := ddiv (total a2) (of_uint64 (count a2))\<rparr>)\<rparr>)"

subsection \<open>Order and escrow\<close>






subsection \<open>Stake pool\<close>

definition increase ::
  "env \<Rightarrow> ctx \<Rightarrow> tables \<Rightarrow> name \<Rightarrow> extended_asset \<Rightarrow> name \<Rightarrow> tables result" where
  "increase e c st ownr asset miner =
     (if \<not> has_auth c ownr then Inl ''missing required authority''
      else if ext_sym asset \<noteq> dmc_sym then Inl ''only DMC can be staked''
      else if \<not> 0 < amount asset then Inl ''must increase a positive amount''
      else
        andthen (sub_balance st ownr asset) (\<lambda>st1.
        (case find_maker (dmc_makers st1) miner of
           None \<Rightarrow>
             if ownr = miner then
               if find_pool (dmc_maker_pools st1 miner) ownr \<noteq> None
                 then Inl ''could not insert object, most likely a uniqueness constraint was violated''
               else
                 Inr (st1\<lparr>dmc_makers := emplace_maker (dmc_makers st1)
                          \<lparr>maker_miner = ownr,
                           current_rate = cal_current_rate e st1 asset miner,
                           miner_rate = Fin 1,
                           total_weight = static_weights e,
                           total_staked = asset,
                           benchmark_stake_rate =
                             get_dmc_config st1 ''bmrate'' (default_benchmark_stake_rate e),
                           rate_updated_at = 0\<rparr>,
                        dmc_maker_pools := (dmc_maker_pools st1)
                          (miner := emplace_pool (dmc_maker_pools st1 miner)
                             \<lparr>pool_owner = ownr, weight = static_weights e\<rparr>)\<rparr>)
             else Inl ''no such record''
         | Some iter \<Rightarrow>
             andthen (asset_add (total_staked iter) asset) (\<lambda>new_total.
             let new_weight =
                   dmul (ddiv (of_int64 (amount asset)) (of_int64 (amount (total_staked iter))))
                     (total_weight iter);
                 new_total_weight = dadd (total_weight iter) new_weight;
                 pool = dmc_maker_pools st1 miner;
                 new_pool =
                   (case find_pool pool ownr of
                      Some p_iter \<Rightarrow> put_pool pool (p_iter\<lparr>weight := dadd (weight p_iter) new_weight\<rparr>)
                    | None \<Rightarrow> emplace_pool pool \<lparr>pool_owner = ownr, weight = new_weight\<rparr>)
             in
             if \<not> dgt new_weight (Fin 0) then Inl ''invalid new weight''
             else if \<not> dgt (ddiv new_weight new_total_weight) (Fin (1 / 10000))
               then Inl ''increase too lower''
             else
               (case find_pool new_pool miner of
                  None \<Rightarrow> Inl ''''
                | Some miner_iter \<Rightarrow>
                    if \<not> dge (ddiv (weight miner_iter) new_total_weight) (miner_rate iter)
                      then Inl ''exceeding the maximum rate''
                    else
                      Inr (st1\<lparr>dmc_makers := put_maker (dmc_makers st1)
                               (iter\<lparr>total_weight := new_total_weight,
                                     total_staked := new_total,
                                     current_rate := cal_current_rate e st1 new_total miner\<rparr>),
                             dmc_maker_pools := (dmc_maker_pools st1)(miner := new_pool)\<rparr>))))))"

text \<open>
  The first part of \<^verbatim>\<open>redemption\<close>, up to the end of the \<^verbatim>\<open>if (rate == 1)\<close> statement:
  the pool after the write, the amount redeemed, the flag \<^verbatim>\<open>last_one\<close>, the weight taken
  from the total, and the redeemer's row after the write (none once it is erased).
\<close>

definition redemption_share ::
  "maker_pool list \<Rightarrow> dmc_maker \<Rightarrow> maker_pool \<Rightarrow> double \<Rightarrow> extended_asset
     \<Rightarrow> (maker_pool list \<times> extended_asset \<times> bool \<times> double \<times> maker_pool option) result" where
  "redemption_share pool iter p_iter rate rede_quantity =
     (if deq rate (Fin 1) then
        (case erase_pool pool (pool_owner p_iter) of
           [] \<Rightarrow> Inr ([], total_staked iter, False, dmul (weight p_iter) rate, None)
         | [pool_begin] \<Rightarrow> Inr ([pool_begin], rede_quantity, True, weight pool_begin, None)
         | rest \<Rightarrow> Inr (rest, rede_quantity, False, dmul (weight p_iter) rate, None))
      else
        if \<not> dgt (dsub (weight p_iter) (dmul (weight p_iter) rate)) (Fin 0)
          then Inl ''negative pool weight amount''
        else
          Inr (put_pool pool (p_iter\<lparr>weight := dsub (weight p_iter) (dmul (weight p_iter) rate)\<rparr>),
               rede_quantity, False, dmul (weight p_iter) rate,
               Some (p_iter\<lparr>weight := dsub (weight p_iter) (dmul (weight p_iter) rate)\<rparr>)))"

text \<open>
  The checks of a maker that redeems from its own pool. With nothing left staked its
  share counts as \<^verbatim>\<open>uint64_max\<close>; otherwise its row must still be in the pool.
\<close>

definition redemption_miner_checks ::
  "env \<Rightarrow> maker_pool list \<Rightarrow> dmc_maker \<Rightarrow> name \<Rightarrow> double \<Rightarrow> double \<Rightarrow> extended_asset \<Rightarrow> double
     \<Rightarrow> unit result" where
  "redemption_miner_checks e pool iter miner r benchmark new_staked new_total_weight =
     (if \<not> dge r benchmark
        then Inl ''current stake rate less than benchmark stake rate, redemption fails''
      else
        andthen
          (if amount new_staked = 0 then Inr (uint64_max e)
           else
             (case find_pool pool miner of
                None \<Rightarrow> Inl ''miner can only redeem all last''
              | Some miner_iter \<Rightarrow> Inr (ddiv (weight miner_iter) new_total_weight)))
          (\<lambda>new_miner_rate.
             if \<not> dge new_miner_rate (miner_rate iter) then Inl ''below the minimum rate''
             else Inr ()))"

text \<open>
  \<^verbatim>\<open>redemption\<close>. When the whole stake is redeemed the maker row is erased; with a
  rate other than 1 the last check then reads \<^verbatim>\<open>iter->total_weight\<close> through the erased
  iterator, which has no defined result: the model ends that path with an error.
\<close>

definition redemption ::
  "env \<Rightarrow> ctx \<Rightarrow> tables \<Rightarrow> name \<Rightarrow> double \<Rightarrow> name \<Rightarrow> tables result" where
  "redemption e c st ownr rate miner =
     (if \<not> has_auth c ownr then Inl ''missing required authority''
      else if \<not> (dgt rate (Fin 0) \<and> dle rate (Fin 1)) then Inl ''invalid rate''
      else
        (case find_maker (dmc_makers st) miner of
           None \<Rightarrow> Inl ''no such record''
         | Some iter \<Rightarrow>
        (case find_pool (dmc_maker_pools st miner) ownr of
           None \<Rightarrow> Inl ''no such limit partnership''
         | Some p_iter \<Rightarrow>
        andthen (asset_of_double
                   (dfloor (dmul (of_int64 (amount (total_staked iter)))
                      (ddiv (dmul (weight p_iter) rate) (total_weight iter))))
                   dmc_sym) (\<lambda>rede_quantity0.
        andthen (redemption_share (dmc_maker_pools st miner) iter p_iter rate rede_quantity0)
          (\<lambda>(pool, rede_quantity, last_one, owner_weight, p_after).
        andthen (asset_sub (total_staked iter) rede_quantity) (\<lambda>new_staked.
        let new_total_weight = dsub (total_weight iter) owner_weight;
            benchmark = get_dmc_rate e st (benchmark_stake_rate iter);
            r = cal_current_rate e st new_staked miner;
            new_iter = iter\<lparr>total_weight := (if last_one then owner_weight else new_total_weight),
                            total_staked := new_staked, current_rate := r\<rparr>
        in
        andthen (if miner = ownr
                 then redemption_miner_checks e pool iter miner r benchmark new_staked new_total_weight
                 else Inr ()) (\<lambda>u.
        if \<not> 0 < amount rede_quantity then Inl ''dust attack detected''
        else if amount new_staked = 0 then
          (case p_after of
             Some p \<Rightarrow> Inl ''maker row read after its erasure''
           | None \<Rightarrow>
               Inr ((lock_add_balance st ownr rede_quantity
                       (now c + 3 * day_sec e * 86400))
                     \<lparr>dmc_makers := erase_maker (dmc_makers st) miner,
                      dmc_maker_pools := (dmc_maker_pools st)(miner := pool)\<rparr>))
        else if \<not> 0 \<le> amount (total_staked new_iter) then Inl ''negative total_staked amount''
        else if \<not> dge (total_weight new_iter) (Fin 0) then Inl ''negative total weight amount''
        else
          (case p_after of
             Some p \<Rightarrow>
               if \<not> dgt (ddiv (weight p) (total_weight new_iter)) (Fin (1 / 10000))
                 then Inl ''The remaining weight is too low''
               else
                 Inr ((lock_add_balance st ownr rede_quantity
                         (now c + 3 * day_sec e * 86400))
                       \<lparr>dmc_makers := put_maker (dmc_makers st) new_iter,
                        dmc_maker_pools := (dmc_maker_pools st)(miner := pool)\<rparr>)
           | None \<Rightarrow>
               Inr ((lock_add_balance st ownr rede_quantity
                       (now c + 3 * day_sec e * 86400))
                     \<lparr>dmc_makers := put_maker (dmc_makers st) new_iter,
                      dmc_maker_pools := (dmc_maker_pools st)(miner := pool)\<rparr>)))))))))"


subsection \<open>Liquidation\<close>












subsection \<open>Notions used in the statements\<close>

text \<open>The capped time that \<^verbatim>\<open>calbonus\<close> returns for a bill.\<close>

definition claim_time :: "env \<Rightarrow> ctx \<Rightarrow> tables \<Rightarrow> bill_record \<Rightarrow> 64 word" where
  "claim_time e c st ust =
     (if ucast (created_at ust) +
           get_dmc_config st ''billinter'' (default_bill_dmc_claims_interval e) \<le> ucast (now c)
      then ucast (created_at ust) +
           get_dmc_config st ''billinter'' (default_bill_dmc_claims_interval e)
      else ucast (now c))"

text \<open>The staked amount of a maker, and the amount it has minted.\<close>

definition staked_of :: "tables \<Rightarrow> name \<Rightarrow> int option" where
  "staked_of st n = map_option (\<lambda>m. amount (total_staked m)) (find_maker (dmc_makers st) n)"







subsection \<open>Example tables\<close>

text \<open>
  A concrete choice of the header's constants and helpers, and small tables, on which the
  theorems below are evaluated. The valuation of an asset is its amount, a reward
  converts into collateral one to one, and the hashes are constant.
\<close>

definition example_env :: env where
  "example_env =
     \<lparr>self = ''dmc.token'', system_account = ''dmc.system'', eos_account = ''dmc'',
      default_service_interval = 0, default_order_service_epoch = 0,
      default_benchmark_stake_rate = 200, default_bill_dmc_claims_interval = 100,
      default_penalty_rate = 30, default_initial_price = 1,
      price_fluncuation_interval = 100, day_sec = 1,
      incentive_rate = Fin 50, static_weights = Fin 10000, uint64_max = Fin (2 ^ 64),
      get_real_asset = (\<lambda>a. of_int64 (amount a)),
      get_dmc_by_vrsi = (\<lambda>st a. mk_asset (amount a) dmc_sym),
      get_n = benchmark_stake_rate,
      bill_hash = (\<lambda>ownr asset price_t t memo. 7),
      order_hash = (\<lambda>ownr miner bid asset reserve memo t. 9),
      past_the_end_price = Fin 0\<rparr>"

definition example_ctx :: ctx where
  "example_ctx = \<lparr>now = 1000, has_auth = (\<lambda>n. True)\<rparr>"

definition pst :: "int \<Rightarrow> extended_asset" where
  "pst v = \<lparr>amount = v, ext_sym = pst_sym\<rparr>"

definition dmc :: "int \<Rightarrow> extended_asset" where
  "dmc v = \<lparr>amount = v, ext_sym = dmc_sym\<rparr>"

definition empty_tables :: tables where
  "empty_tables =
     \<lparr>bill_stats = (\<lambda>n. []), dmc_makers = [], dmc_maker_pools = (\<lambda>n. []),
      pststats = (\<lambda>n. None), accounts = (\<lambda>n s. None), lock_accounts = [],
      dmc_global = (\<lambda>n. None), avg_table = None, price_table = [],
      dmc_orders = [], dmc_challenges = []\<rparr>"

definition example_bill :: bill_record where
  "example_bill =
     \<lparr>primary = 0, bill_id = 7, bill_owner = ''alice'', matched = pst 0, unmatched = pst 100,
      bill_price = 5 * 2 ^ 31, created_at = 1000, updated_at = 1000, expire_on = 5000,
      deposit_ratio = 1\<rparr>"

definition tables_without_maker :: tables where
  "tables_without_maker = empty_tables\<lparr>bill_stats := (\<lambda>n. [])(''alice'' := [example_bill])\<rparr>"

definition example_maker :: dmc_maker where
  "example_maker =
     \<lparr>maker_miner = ''alice'', current_rate = Fin 20, miner_rate = Fin 1,
      total_weight = Fin 10000, total_staked = dmc 2000, benchmark_stake_rate = 200,
      rate_updated_at = 0\<rparr>"

text \<open>Alice is a maker with 2000 staked and 100 minted, and holds 100 PST.\<close>

definition tables_maker_only :: tables where
  "tables_maker_only =
     empty_tables\<lparr>dmc_makers := [example_maker],
       pststats := (\<lambda>n. None)(''alice'' \<mapsto> pst 100),
       accounts := (\<lambda>n s. None)(''alice'' := (\<lambda>s. None)(pst_sym \<mapsto> 100))\<rparr>"

text \<open>The same, with a bill of 100 PST at the price 2.5; Bob holds 1000 DMC.\<close>

definition tables_with_maker :: tables where
  "tables_with_maker =
     empty_tables\<lparr>bill_stats := (\<lambda>n. [])(''alice'' := [example_bill]),
       dmc_makers := [example_maker],
       pststats := (\<lambda>n. None)(''alice'' \<mapsto> pst 100),
       accounts := (\<lambda>n s. None)(''bob'' := (\<lambda>s. None)(dmc_sym \<mapsto> 1000))\<rparr>"

text \<open>Bob holds 100 PST and has no maker row.\<close>

definition tables_bob :: tables where
  "tables_bob =
     empty_tables\<lparr>accounts := (\<lambda>n s. None)(''bob'' := (\<lambda>s. None)(pst_sym \<mapsto> 100))\<rparr>"

text \<open>Ten seconds after the bill was written.\<close>

definition later_ctx :: ctx where
  "later_ctx = \<lparr>now = 1010, has_auth = (\<lambda>n. True)\<rparr>"


text \<open>
  Two price samples, of the prices 1 and 3, written at the times 0 and 100; the aggregate
  holds their sum, count and average. At the time 150 the window of 100 seconds has left
  the first sample behind.
\<close>

definition tables_prices :: tables where
  "tables_prices =
     empty_tables\<lparr>price_table :=
         [\<lparr>price_primary = 0, price_bill_id = 1, sample_price = Fin 1, price_created_at = 0\<rparr>,
          \<lparr>price_primary = 1, price_bill_id = 2, sample_price = Fin 3, price_created_at = 100\<rparr>],
       avg_table := Some \<lparr>avg_primary = 0, total = Fin 4, count = 2, avg = Fin 2\<rparr>\<rparr>"

definition window_ctx :: ctx where
  "window_ctx = \<lparr>now = 150, has_auth = (\<lambda>n. True)\<rparr>"





section \<open>Properties\<close>

subsection \<open>Auxiliary facts\<close>


lemma andthen_pair_Inr:
  "andthen m (\<lambda>(a, b). f a b) = Inr y \<longleftrightarrow> (\<exists>a b. m = Inr (a, b) \<and> f a b = Inr y)"
  by (cases m) (auto simp: andthen_def)






lemma find_byid_put_bill:
  "find_byid rows i = Some ust \<Longrightarrow> bill_id r = i \<Longrightarrow> primary r = primary ust \<Longrightarrow>
     find_byid (put_bill rows r) i = Some r"
  by (induction rows) (auto simp: find_byid_def put_bill_def split: if_splits)

lemma find_maker_put_maker:
  "find_maker rows n = Some m \<Longrightarrow> maker_miner r = n \<Longrightarrow> find_maker (put_maker rows r) n = Some r"
  by (induction rows) (auto simp: find_maker_def put_maker_def split: if_splits)

lemma find_maker_Some_name: "find_maker rows n = Some m \<Longrightarrow> maker_miner m = n"
  by (induction rows) (auto simp: find_maker_def split: if_splits)

lemma calbonus_Inr:
  assumes "calbonus e c st ownr bid p = Inr (st1, t)"
  shows "\<exists>ust iter. find_byid (bill_stats st ownr) bid = Some ust \<and>
           find_maker (dmc_makers st) ownr = Some iter \<and> t = claim_time e c st ust \<and>
           (st1 = st \<or> (\<exists>staked. st1 = st\<lparr>dmc_makers := put_maker (dmc_makers st) (iter\<lparr>total_staked := staked\<rparr>)\<rparr>))"
  using assms unfolding calbonus_def claim_time_def
  by (auto simp: andthen_def Let_def split: option.splits if_splits sum.splits)

lemma ucast_back:
  fixes t :: "64 word" and n :: "32 word"
  assumes "t \<le> ucast n" shows "ucast (ucast t :: 32 word) = t"
proof -
  have "unat t \<le> unat (ucast n :: 64 word)" using assms by (simp add: word_le_nat_alt)
  also have "\<dots> = unat n"
  proof -
    have "unat n < 2 ^ 32" using unsigned_less [of n, where 'a = nat] by simp
    then have "unat n < 2 ^ 64" by (rule less_trans) simp
    then show ?thesis by (simp add: unsigned_ucast_eq take_bit_nat_eq_self)
  qed
  finally have "unat t < 2 ^ 32" using unsigned_less [of n, where 'a = nat] by simp
  then show ?thesis
    by (simp add: word_unat_eq_iff unsigned_ucast_eq unsigned_take_bit_eq take_bit_nat_eq_self)
qed

lemma mul_zero: "mul_int64 (mul_int64_uint64 a 0) u = 0"
  by (simp add: mul_int64_def mul_int64_uint64_def)

lemma claim_time_le_now: "claim_time e c st ust \<le> ucast (now c)"
  by (simp add: claim_time_def)

lemma calbonus_at_claim_time:
  assumes b: "find_byid (bill_stats st ownr) bid = Some r"
    and m: "find_maker (dmc_makers st) ownr = Some iter"
    and u: "updated_at r = ucast (claim_time e c st r)"
  shows "calbonus e c st ownr bid p = andthen (bonus_rate e st) (\<lambda>q. Inr (st, claim_time e c st r))"
proof -
  have upd: "(ucast (updated_at r) :: 64 word) = claim_time e c st r"
    using u ucast_back [OF claim_time_le_now] by simp
  have le: "claim_time e c st r \<le> ucast (created_at r) + get_dmc_config st ''billinter'' (default_bill_dmc_claims_interval e)"
    by (auto simp: claim_time_def)
  show ?thesis
    using b m le upd
    by (simp add: calbonus_def Let_def claim_time_def [symmetric] mul_zero andthen_def split: sum.splits)
qed





lemma trunc_of_int [simp]: "trunc (of_int k) = k"
  by (simp add: trunc_def)

lemma to_int64_of_int:
  "to_int64 (Fin (of_int k)) = Some v \<Longrightarrow> v = k"
  by (simp split: if_splits)

















lemma dlt_special [simp]: "dlt PInf x = False" "dlt x NaN = False" "dlt NaN x = False" "dlt x MInf = False"
  by (cases x; simp)+




















text \<open>The definitions that evaluate the example tables.\<close>

lemmas example_defs = example_env_def example_ctx_def later_ctx_def pst_def dmc_def empty_tables_def
  example_bill_def example_maker_def tables_maker_only_def tables_with_maker_def tables_bob_def
  tables_without_maker_def

lemmas eval_defs = andthen_def find_byid_def find_maker_def put_maker_def put_bill_def erase_bill_def
  store_bill_def get_dmc_config_def bonus_rate_def get_asset_by_amount_def asset_of_double_def
  of_uint64_def of_int64_def mk_asset_def max_amount_def trunc_def mul_int64_def mul_int64_uint64_def
  asset_add_def asset_sub_def asset_ge_def sub_balance_def add_balance_def staked_of_def
  available_primary_key_def dge_def dle_def dgt_def



subsection \<open>The claims\<close>

text \<open>
  C10. An \<^verbatim>\<open>unbill\<close> of a bill that exists aborts when its owner has no row in the maker
  table: the bonus accrual reads the owner's maker row before anything is written. With
  the authorisation and the memo in order, the abort is that of the maker lookup.
\<close>

theorem unbill_without_maker_aborts:
  "find_byid (bill_stats st ownr) bid = Some b \<Longrightarrow> find_maker (dmc_makers st) ownr = None \<Longrightarrow>
     (\<exists>msg. unbill e c st ownr bid memo = Inl msg) \<and>
     (has_auth c ownr \<and> length memo \<le> 256 \<longrightarrow>
        unbill e c st ownr bid memo = Inl ''no such pst maker'')"
  by (simp add: unbill_def calbonus_def andthen_def)

theorem unbill_without_maker_aborts_witness:
  "find_byid (bill_stats tables_without_maker ''alice'') 7 = Some example_bill \<and>
   find_maker (dmc_makers tables_without_maker) ''alice'' = None \<and>
   unbill example_env example_ctx tables_without_maker ''alice'' 7 ''bye'' =
     Inl ''no such pst maker''"
proof -
  have b: "find_byid (bill_stats tables_without_maker ''alice'') 7 = Some example_bill"
    by (simp add: tables_without_maker_def find_byid_def example_bill_def)
  have m: "find_maker (dmc_makers tables_without_maker) ''alice'' = None"
    by (simp add: tables_without_maker_def empty_tables_def find_maker_def)
  from unbill_without_maker_aborts [OF b m, of example_env example_ctx "''bye''"]
  show ?thesis using b m by (simp add: example_ctx_def)
qed

text \<open>
  C9, as amended. \<^verbatim>\<open>calbonus\<close> leaves the bill's \<^verbatim>\<open>updated_at\<close> to its caller. Once the
  caller has stored the returned time in the bill (as \<^verbatim>\<open>order\<close> and \<^verbatim>\<open>liquidation\<close> do,
  whatever they write to \<^verbatim>\<open>unmatched\<close> and \<^verbatim>\<open>matched\<close>), a second call at the same time
  returns the tables as they are: it changes no stake.
\<close>

theorem calbonus_second_call:
  assumes first: "calbonus e c st ownr bid p = Inr (st1, t)"
    and ust: "find_byid (bill_stats st ownr) bid = Some ust"
  shows "calbonus e c (store_bill st1 ownr (ust\<lparr>unmatched := u, matched := m, updated_at := ucast t\<rparr>)) ownr bid p'
         = andthen (bonus_rate e st)
             (\<lambda>q. Inr (store_bill st1 ownr (ust\<lparr>unmatched := u, matched := m, updated_at := ucast t\<rparr>), t))"
proof -
  let ?r = "ust\<lparr>unmatched := u, matched := m, updated_at := ucast t\<rparr>"
  let ?st = "store_bill st1 ownr ?r"
  from calbonus_Inr [OF first] ust obtain iter where
    iter: "find_maker (dmc_makers st) ownr = Some iter" and t: "t = claim_time e c st ust"
    and st1: "st1 = st \<or> (\<exists>staked. st1 = st\<lparr>dmc_makers := put_maker (dmc_makers st) (iter\<lparr>total_staked := staked\<rparr>)\<rparr>)"
    by auto
  have bills: "bill_stats st1 = bill_stats st" and glob: "dmc_global st1 = dmc_global st"
    using st1 by auto
  have mk: "\<exists>iter'. find_maker (dmc_makers ?st) ownr = Some iter'"
    using st1 iter find_maker_put_maker [OF iter, of "iter\<lparr>total_staked := s\<rparr>" for s] find_maker_Some_name [OF iter]
    by (auto simp: store_bill_def)
  then obtain iter' where iter': "find_maker (dmc_makers ?st) ownr = Some iter'" ..
  have b: "find_byid (bill_stats ?st ownr) bid = Some ?r"
    using find_byid_put_bill [OF ust, of ?r] ust
    by (simp add: store_bill_def bills find_byid_def) (metis (mono_tags, lifting) find_Some_iff)
  have ct: "claim_time e c ?st ?r = t"
    by (simp add: claim_time_def t get_dmc_config_def store_bill_def glob)
  have br: "bonus_rate e ?st = bonus_rate e st"
    by (simp add: bonus_rate_def get_dmc_config_def store_bill_def glob)
  have "calbonus e c ?st ownr bid p' = andthen (bonus_rate e ?st) (\<lambda>q. Inr (?st, claim_time e c ?st ?r))"
    by (rule calbonus_at_claim_time [OF b iter']) (simp add: ct)
  then show ?thesis by (simp add: ct br)
qed

theorem calbonus_second_call_witness:
  "calbonus example_env later_ctx tables_with_maker ''alice'' 7 ''alice''
     = Inr (tables_with_maker\<lparr>dmc_makers := [example_maker\<lparr>total_staked := dmc 3000\<rparr>]\<rparr>, 1010) \<and>
   find_byid (bill_stats tables_with_maker ''alice'') 7 = Some example_bill \<and>
   calbonus example_env later_ctx
     (store_bill (tables_with_maker\<lparr>dmc_makers := [example_maker\<lparr>total_staked := dmc 3000\<rparr>]\<rparr>) ''alice''
        (example_bill\<lparr>unmatched := pst 40, matched := pst 60, updated_at := 1010\<rparr>))
     ''alice'' 7 ''bob''
     = Inr (store_bill (tables_with_maker\<lparr>dmc_makers := [example_maker\<lparr>total_staked := dmc 3000\<rparr>]\<rparr>) ''alice''
              (example_bill\<lparr>unmatched := pst 40, matched := pst 60, updated_at := 1010\<rparr>), 1010)"
proof -
  have first: "calbonus example_env later_ctx tables_with_maker ''alice'' 7 ''alice''
     = Inr (tables_with_maker\<lparr>dmc_makers := [example_maker\<lparr>total_staked := dmc 3000\<rparr>]\<rparr>, 1010)"
    by (simp add: calbonus_def example_defs eval_defs)
  have found: "find_byid (bill_stats tables_with_maker ''alice'') 7 = Some example_bill"
    by (simp add: example_defs eval_defs)
  have rate: "bonus_rate example_env tables_with_maker = Inr \<lparr>amount = 1, ext_sym = rsi_sym\<rparr>"
    by (simp add: example_defs eval_defs)
  from calbonus_second_call [OF first found, where u = "pst 40" and m = "pst 60" and p' = "''bob''"]
  show ?thesis using first found rate by (simp add: andthen_def)
qed

text \<open>
  C9, as stated, fails: two calls of \<^verbatim>\<open>calbonus\<close> in a row, ten seconds after the bill was
  last updated and with nothing written in between, each add the same bonus of 1000 to the
  stake of the maker.
\<close>

theorem calbonus_twice_counterexample:
  "andthen (calbonus example_env later_ctx tables_with_maker ''alice'' 7 ''alice'') (\<lambda>(st1, t1).
     andthen (calbonus example_env later_ctx st1 ''alice'' 7 ''alice'') (\<lambda>(st2, t2).
       Inr (staked_of tables_with_maker ''alice'', staked_of st1 ''alice'', staked_of st2 ''alice'', t1, t2)))
   = Inr (Some 2000, Some 3000, Some 4000, 1010, 1010)"
  by (simp add: calbonus_def example_defs eval_defs)














text \<open>
  C4. The eviction decrements the running sum by the price of the row after the evicted
  one. With the samples 1 (expired) and 3, and the new sample 5, the rows that remain are
  3 and 5 with the average 4; the code leaves the sum 4 - 3 + 5 = 6 and the average 3.
\<close>

theorem trace_price_history_evicts_wrong_price:
  "avg_table (trace_price_history example_env window_ctx tables_prices (Fin 5) 3)
     = Some \<lparr>avg_primary = 0, total = Fin 6, count = 2, avg = Fin 3\<rparr> \<and>
   map sample_price (price_table (trace_price_history example_env window_ctx tables_prices (Fin 5) 3))
     = [Fin 3, Fin 5]"
  by (simp add: trace_price_history_def tables_prices_def window_ctx_def empty_tables_def
        example_env_def dsub_def of_uint64_def available_primary_key_def)




end
